theory Spec2Isabelle
  imports Main "HOL-Library.Word" "HOL-Library.Signed_Division" "HOL-Library.Sublist"
begin

unbundle bit_operations_syntax

section \<open>Go values used by keywordfuncs.go\<close>

type_synonym byte = "8 word"
type_synonym uint32 = "32 word"
type_synonym int64 = "64 word"

text \<open>
  A keyword function returns \<open>(string, error)\<close>; it can also panic. Both ways of not
  producing a token are the left injection of the result: \<open>Err msg\<close> is a returned
  non-nil error, the other two constructors are run-time panics.
\<close>

datatype error = DivideByZeroPanic | NilPointerPanic | Err string

type_synonym 'a result = "error + 'a"

subsection \<open>Integer division of int64\<close>

text \<open>
  Go's \<open>/\<close> and \<open>%\<close> on signed integers truncate towards zero and panic on a zero
  divisor; the quotient wraps to 64 bits.
\<close>

definition go_div :: "int64 \<Rightarrow> int64 \<Rightarrow> int64 result" where
  "go_div a b = (if b = 0 then Inl DivideByZeroPanic
                 else Inr (word_of_int (sint a sdiv sint b)))"

definition go_rem :: "int64 \<Rightarrow> int64 \<Rightarrow> int64 result" where
  "go_rem a b = (if b = 0 then Inl DivideByZeroPanic
                 else Inr (word_of_int (sint a smod sint b)))"

subsection \<open>The verbs of fmt.Sprintf that the file uses\<close>

definition digit_char :: "nat \<Rightarrow> char" where
  "digit_char d = ''0123456789abcdef'' ! d"

function fmt_digits :: "nat \<Rightarrow> nat \<Rightarrow> string" where
  "fmt_digits b n = (if b < 2 \<or> n < b then [digit_char n]
                     else fmt_digits b (n div b) @ [digit_char (n mod b)])"
  by pat_completeness auto
termination
  by (relation "measure snd") auto

declare fmt_digits.simps [simp del]

text \<open>\<open>%d\<close> of a signed integer.\<close>

definition fmt_d :: "int \<Rightarrow> string" where
  "fmt_d i = (if i < 0 then ''-'' @ fmt_digits 10 (nat (- i)) else fmt_digits 10 (nat i))"

text \<open>
  \<open>%W.Pd\<close>: the precision \<open>P\<close> is the least number of digits (zeros are put in
  front of the digits, behind the sign), the width \<open>W\<close> the least length of the whole
  (blanks are put in front).
\<close>

definition fmt_d_wp :: "nat \<Rightarrow> nat \<Rightarrow> int \<Rightarrow> string" where
  "fmt_d_wp wid prec i =
     (let ds = fmt_digits 10 (nat \<bar>i\<bar>);
          zs = replicate (prec - length ds) CHR ''0'' @ ds;
          s = (if i < 0 then ''-'' @ zs else zs)
      in replicate (wid - length s) CHR '' '' @ s)"

text \<open>\<open>%#o\<close> of an unsigned integer: octal, with a 0 in front unless the digits start with one.\<close>

definition fmt_sharp_o :: "nat \<Rightarrow> string" where
  "fmt_sharp_o n = (let ds = fmt_digits 8 n in if hd ds = CHR ''0'' then ds else CHR ''0'' # ds)"

text \<open>\<open>%x\<close> of a byte slice: two lower-case hexadecimal digits for each byte.\<close>

definition fmt_x_byte :: "byte \<Rightarrow> string" where
  "fmt_x_byte b = [digit_char (unat b div 16), digit_char (unat b mod 16)]"

definition fmt_x :: "byte list \<Rightarrow> string" where
  "fmt_x bs = concat (map fmt_x_byte bs)"

subsection \<open>os.FileMode\<close>

definition ModeDir :: uint32 where "ModeDir = push_bit 31 1"
definition ModeSymlink :: uint32 where "ModeSymlink = push_bit 27 1"
definition ModeDevice :: uint32 where "ModeDevice = push_bit 26 1"
definition ModeNamedPipe :: uint32 where "ModeNamedPipe = push_bit 25 1"
definition ModeSocket :: uint32 where "ModeSocket = push_bit 24 1"
definition ModeSetuid :: uint32 where "ModeSetuid = push_bit 23 1"
definition ModeSetgid :: uint32 where "ModeSetgid = push_bit 22 1"
definition ModeCharDevice :: uint32 where "ModeCharDevice = push_bit 21 1"
definition ModeSticky :: uint32 where "ModeSticky = push_bit 20 1"
definition ModeIrregular :: uint32 where "ModeIrregular = push_bit 19 1"

definition ModeType :: uint32 where
  "ModeType = ModeDir OR ModeSymlink OR ModeNamedPipe OR ModeSocket OR ModeDevice
              OR ModeCharDevice OR ModeIrregular"

text \<open>\<open>ModePerm\<close> is 0777 in octal.\<close>

definition ModePerm :: uint32 where "ModePerm = 511"

definition IsDir :: "uint32 \<Rightarrow> bool" where
  "IsDir m \<longleftrightarrow> m AND ModeDir \<noteq> 0"

definition IsRegular :: "uint32 \<Rightarrow> bool" where
  "IsRegular m \<longleftrightarrow> m AND ModeType = 0"

definition Perm :: "uint32 \<Rightarrow> uint32" where
  "Perm m = m AND ModePerm"

subsection \<open>time.Time, tar.Header, os.FileInfo, io.Reader\<close>

text \<open>
  A time is the seconds since the Unix epoch and the nanoseconds within the second.
  \<open>UnixNano\<close> is \<open>sec * 1e9 + nsec\<close> in int64, as in the standard library.
\<close>

record Time =
  unixSec :: int64
  nsec :: uint32

definition Unix :: "Time \<Rightarrow> int64" where
  "Unix t = unixSec t"

definition UnixNano :: "Time \<Rightarrow> int64" where
  "UnixNano t = unixSec t * 1000000000 + ucast (nsec t)"

record Header =
  Typeflag :: byte
  Linkname :: string
  HeaderSize :: int64

definition TypeSymlink :: byte where
  "TypeSymlink = 50"

text \<open>
  \<open>info.Sys()\<close> is an empty interface; the file only asks whether it holds a
  \<open>*tar.Header\<close>. The header it points to is the value of \<open>SysTarHeader\<close>; a nil
  pointer of that type is not modelled.
\<close>

datatype sys_value = SysNil | SysTarHeader Header | SysOther

record FileInfo =
  Name :: string
  Size :: int64
  Mode :: uint32
  ModTime :: Time
  Sys :: sys_value

text \<open>
  A reader is the bytes it yields and how it ends: at end of file (\<open>None\<close>) or with a
  read error. \<open>NilReader\<close> is the nil interface value.
\<close>

datatype Reader = NilReader | Stream "byte list" "string option"

text \<open>
  \<open>io.Copy(h, r)\<close> into a hash: the bytes written to the hash, or how the copy fails.
  Writing to a hash never fails.
\<close>

fun io_Copy :: "Reader \<Rightarrow> byte list result" where
  "io_Copy NilReader = Inl NilPointerPanic"
| "io_Copy (Stream bs None) = Inr bs"
| "io_Copy (Stream bs (Some e)) = Inl (Err e)"

text \<open>
  The file system as \<open>os.Readlink\<close> sees it, and the log of the paths
  \<open>os.Readlink\<close> was called with.
\<close>

record World =
  symlinks :: "string \<Rightarrow> string result"
  readlink_calls :: "string list"

definition os_Readlink :: "string \<Rightarrow> World \<Rightarrow> string result \<times> World" where
  "os_Readlink path w = (symlinks w path, w\<lparr>readlink_calls := readlink_calls w @ [path]\<rparr>)"

section \<open>The keyword functions\<close>

type_synonym KeywordFunc = "string \<Rightarrow> FileInfo \<Rightarrow> Reader \<Rightarrow> World \<Rightarrow> string result \<times> World"

definition modeKeywordFunc :: KeywordFunc where
  "modeKeywordFunc path info r w =
     (let permissions = Perm (Mode info);
          permissions = (if ModeSetuid AND Mode info > 0
                         then permissions OR push_bit 11 1 else permissions);
          permissions = (if ModeSetgid AND Mode info > 0
                         then permissions OR push_bit 10 1 else permissions);
          permissions = (if ModeSticky AND Mode info > 0
                         then permissions OR push_bit 9 1 else permissions)
      in (Inr (''mode='' @ fmt_sharp_o (unat permissions)), w))"

definition sizeKeywordFunc :: KeywordFunc where
  "sizeKeywordFunc path info r w =
     (case Sys info of
        SysTarHeader sys \<Rightarrow>
          if Typeflag sys = TypeSymlink
          then (Inr (''size='' @ fmt_d (int (length (Linkname sys)))), w)
          else (Inr (''size='' @ fmt_d (sint (Size info))), w)
      | _ \<Rightarrow> (Inr (''size='' @ fmt_d (sint (Size info))), w))"

definition tartimeKeywordFunc :: KeywordFunc where
  "tartimeKeywordFunc path info r w =
     (Inr (''tar_time='' @ fmt_d (sint (Unix (ModTime info))) @ ''.000000000''), w)"

definition timeKeywordFunc :: KeywordFunc where
  "timeKeywordFunc path info r w =
     (let t = UnixNano (ModTime info) in
      if t = 0 then (Inr ''time=0.000000000'', w)
      else (case go_div t 1000000000 of
              Inl e \<Rightarrow> (Inl e, w)
            | Inr q \<Rightarrow>
                (case go_rem t q of
                   Inl e \<Rightarrow> (Inl e, w)
                 | Inr m \<Rightarrow>
                     (Inr (''time='' @ fmt_d (sint q) @ ''.'' @ fmt_d_wp 9 9 (sint m)), w))))"

definition linkKeywordFunc :: KeywordFunc where
  "linkKeywordFunc path info r w =
     (case Sys info of
        SysTarHeader sys \<Rightarrow>
          if Linkname sys \<noteq> [] then (Inr (''link='' @ Linkname sys), w)
          else (Inr [], w)
      | _ \<Rightarrow>
          if Mode info AND ModeSymlink \<noteq> 0
          then (case os_Readlink path w of
                  (Inl err, w') \<Rightarrow> (Inl err, w')
                | (Inr str, w') \<Rightarrow> (Inr (''link='' @ str), w'))
          else (Inr [], w))"

definition typeKeywordFunc :: KeywordFunc where
  "typeKeywordFunc path info r w =
     (if IsDir (Mode info) then (Inr ''type=dir'', w)
      else if IsRegular (Mode info) then (Inr ''type=file'', w)
      else if Mode info AND ModeSocket \<noteq> 0 then (Inr ''type=socket'', w)
      else if Mode info AND ModeSymlink \<noteq> 0 then (Inr ''type=link'', w)
      else if Mode info AND ModeNamedPipe \<noteq> 0 then (Inr ''type=fifo'', w)
      else if Mode info AND ModeDevice \<noteq> 0
           then (if Mode info AND ModeCharDevice \<noteq> 0 then (Inr ''type=char'', w)
                 else (Inr ''type=device'', w))
      else (Inr [], w))"

subsection \<open>What the file takes from elsewhere\<close>

text \<open>
  A hash algorithm is the digest of the bytes written to a fresh accumulator:
  \<open>h := newHash()\<close>, the writes, then \<open>h.Sum(nil)\<close>.
\<close>

type_synonym hash_alg = "byte list \<Rightarrow> byte list"

text \<open>
  The constructors of the hash packages, the repository's \<open>cksum\<close> (sum, length and
  error) and the keyword functions that other files of the package define.
\<close>

record Deps =
  md5_New :: hash_alg
  ripemd160_New :: hash_alg
  sha1_New :: hash_alg
  sha256_New :: hash_alg
  sha512_New384 :: hash_alg
  sha512_New :: hash_alg
  cksum :: "Reader \<Rightarrow> uint32 \<times> int64 \<times> error option"
  uidKeywordFunc :: KeywordFunc
  gidKeywordFunc :: KeywordFunc
  nlinkKeywordFunc :: KeywordFunc
  unameKeywordFunc :: KeywordFunc
  xattrKeywordFunc :: KeywordFunc

definition cksumKeywordFunc :: "Deps \<Rightarrow> KeywordFunc" where
  "cksumKeywordFunc D path info r w =
     (if \<not> IsRegular (Mode info) then (Inr [], w)
      else (case cksum D r of
              (sum32, _, Some err) \<Rightarrow> (Inl err, w)
            | (sum32, _, None) \<Rightarrow> (Inr (''cksum='' @ fmt_d (uint sum32)), w)))"

definition hasherKeywordFunc :: "string \<Rightarrow> hash_alg \<Rightarrow> KeywordFunc" where
  "hasherKeywordFunc name newHash = (\<lambda>path info r w.
     if \<not> IsRegular (Mode info) then (Inr [], w)
     else (case io_Copy r of
             Inl err \<Rightarrow> (Inl err, w)
           | Inr bs \<Rightarrow> (Inr (name @ ''='' @ fmt_x (newHash bs)), w)))"

subsection \<open>The registry\<close>

definition KeywordFuncs_entries :: "Deps \<Rightarrow> (string \<times> KeywordFunc) list" where
  "KeywordFuncs_entries D =
     [(''size'', sizeKeywordFunc),
      (''type'', typeKeywordFunc),
      (''time'', timeKeywordFunc),
      (''link'', linkKeywordFunc),
      (''uid'', uidKeywordFunc D),
      (''gid'', gidKeywordFunc D),
      (''nlink'', nlinkKeywordFunc D),
      (''uname'', unameKeywordFunc D),
      (''mode'', modeKeywordFunc),
      (''cksum'', cksumKeywordFunc D),
      (''md5'', hasherKeywordFunc ''md5digest'' (md5_New D)),
      (''md5digest'', hasherKeywordFunc ''md5digest'' (md5_New D)),
      (''rmd160'', hasherKeywordFunc ''ripemd160digest'' (ripemd160_New D)),
      (''rmd160digest'', hasherKeywordFunc ''ripemd160digest'' (ripemd160_New D)),
      (''ripemd160digest'', hasherKeywordFunc ''ripemd160digest'' (ripemd160_New D)),
      (''sha1'', hasherKeywordFunc ''sha1digest'' (sha1_New D)),
      (''sha1digest'', hasherKeywordFunc ''sha1digest'' (sha1_New D)),
      (''sha256'', hasherKeywordFunc ''sha256digest'' (sha256_New D)),
      (''sha256digest'', hasherKeywordFunc ''sha256digest'' (sha256_New D)),
      (''sha384'', hasherKeywordFunc ''sha384digest'' (sha512_New384 D)),
      (''sha384digest'', hasherKeywordFunc ''sha384digest'' (sha512_New384 D)),
      (''sha512'', hasherKeywordFunc ''sha512digest'' (sha512_New D)),
      (''sha512digest'', hasherKeywordFunc ''sha512digest'' (sha512_New D)),
      (''tar_time'', tartimeKeywordFunc),
      (''xattr'', xattrKeywordFunc D),
      (''xattrs'', xattrKeywordFunc D)]"

text \<open>\<open>KeywordFuncs[name]\<close>: the map built from the literal.\<close>

definition KeywordFuncs :: "Deps \<Rightarrow> string \<Rightarrow> KeywordFunc option" where
  "KeywordFuncs D = map_of (KeywordFuncs_entries D)"

section \<open>Tables read off the registry\<close>

text \<open>
  The entries of the registry that are built by \<open>hasherKeywordFunc\<close>: the key, the name
  given to \<open>hasherKeywordFunc\<close> and the hash constructor.
\<close>

definition digest_table :: "(string \<times> string \<times> (Deps \<Rightarrow> hash_alg)) list" where
  "digest_table =
     [(''md5'', ''md5digest'', md5_New),
      (''md5digest'', ''md5digest'', md5_New),
      (''rmd160'', ''ripemd160digest'', ripemd160_New),
      (''rmd160digest'', ''ripemd160digest'', ripemd160_New),
      (''ripemd160digest'', ''ripemd160digest'', ripemd160_New),
      (''sha1'', ''sha1digest'', sha1_New),
      (''sha1digest'', ''sha1digest'', sha1_New),
      (''sha256'', ''sha256digest'', sha256_New),
      (''sha256digest'', ''sha256digest'', sha256_New),
      (''sha384'', ''sha384digest'', sha512_New384),
      (''sha384digest'', ''sha384digest'', sha512_New384),
      (''sha512'', ''sha512digest'', sha512_New),
      (''sha512digest'', ''sha512digest'', sha512_New)]"

text \<open>The keys that the comments of the registry call synonyms, each with the key it is a synonym for.\<close>

definition digest_synonyms :: "(string \<times> string) list" where
  "digest_synonyms =
     [(''md5'', ''md5digest''),
      (''rmd160'', ''rmd160digest''),
      (''rmd160'', ''ripemd160digest''),
      (''sha1'', ''sha1digest''),
      (''sha256'', ''sha256digest''),
      (''sha384'', ''sha384digest''),
      (''sha512'', ''sha512digest'')]"

section \<open>Reading numerals back\<close>

text \<open>The value of a digit of \<open>digit_char\<close> and of a string of digits in base \<open>b\<close>.\<close>

definition digit_val :: "char \<Rightarrow> nat" where
  "digit_val c = (let v = of_char c in if v < 58 then v - 48 else v - 87)"

definition digits_val :: "nat \<Rightarrow> string \<Rightarrow> nat" where
  "digits_val b s = foldl (\<lambda>a c. a * b + digit_val c) 0 s"

section \<open>The specification's wording, for comparison with the code\<close>

text \<open>
  The mode word as the specification describes it: the low nine permission bits, with
  04000 (2048) for set-user-id, 02000 (1024) for set-group-id and 01000 (512) for sticky.
\<close>

definition mode_word_spec :: "uint32 \<Rightarrow> uint32" where
  "mode_word_spec m =
     (m AND 511) OR (if m AND ModeSetuid \<noteq> 0 then 2048 else 0)
                 OR (if m AND ModeSetgid \<noteq> 0 then 1024 else 0)
                 OR (if m AND ModeSticky \<noteq> 0 then 512 else 0)"

text \<open>
  The time token in the fixed-divisor form: seconds are the nanoseconds divided by
  \<open>10^9\<close>, the fraction is the remainder of the same division, in nine digits.
\<close>

definition time_fixed_divisor_spec :: "int64 \<Rightarrow> string" where
  "time_fixed_divisor_spec t =
     ''time='' @ fmt_d (sint t sdiv 1000000000) @ ''.'' @ fmt_d_wp 9 9 (sint t smod 1000000000)"

text \<open>
  The classifications of the type keyword in the order the specification lists them, each
  with its token; the token of the first classification that holds (the empty token when
  none does); and a mode on which at most one classification holds.
\<close>

definition type_classes :: "((uint32 \<Rightarrow> bool) \<times> string) list" where
  "type_classes =
     [(IsDir, ''type=dir''),
      (IsRegular, ''type=file''),
      (\<lambda>m. m AND ModeSocket \<noteq> 0, ''type=socket''),
      (\<lambda>m. m AND ModeSymlink \<noteq> 0, ''type=link''),
      (\<lambda>m. m AND ModeNamedPipe \<noteq> 0, ''type=fifo''),
      (\<lambda>m. m AND ModeDevice \<noteq> 0 \<and> m AND ModeCharDevice \<noteq> 0, ''type=char''),
      (\<lambda>m. m AND ModeDevice \<noteq> 0 \<and> m AND ModeCharDevice = 0, ''type=device'')]"

definition first_class :: "uint32 \<Rightarrow> string" where
  "first_class m = (case find (\<lambda>(p, t). p m) type_classes of None \<Rightarrow> [] | Some (p, t) \<Rightarrow> t)"

definition well_formed :: "uint32 \<Rightarrow> bool" where
  "well_formed m \<longleftrightarrow> length (filter (\<lambda>(p, t). p m) type_classes) \<le> 1"

section \<open>Example values\<close>

definition ex_hash :: hash_alg where
  "ex_hash bs = rev bs"

definition ex_cksum :: "Reader \<Rightarrow> uint32 \<times> int64 \<times> error option" where
  "ex_cksum r = (case io_Copy r of Inl e \<Rightarrow> (0, 0, Some e)
                 | Inr bs \<Rightarrow> (of_nat (length bs), of_nat (length bs), None))"

definition ex_keyword :: KeywordFunc where
  "ex_keyword path info r w = (Inr [], w)"

definition ex_deps :: Deps where
  "ex_deps = \<lparr>md5_New = ex_hash, ripemd160_New = ex_hash, sha1_New = ex_hash,
              sha256_New = ex_hash, sha512_New384 = ex_hash, sha512_New = ex_hash,
              cksum = ex_cksum, uidKeywordFunc = ex_keyword, gidKeywordFunc = ex_keyword,
              nlinkKeywordFunc = ex_keyword, unameKeywordFunc = ex_keyword,
              xattrKeywordFunc = ex_keyword\<rparr>"

definition ex_symlinks :: "string \<Rightarrow> string result" where
  "ex_symlinks p = (if p = ''lnk'' then Inr ''target.txt''
                    else Inl (Err ''readlink: invalid argument''))"

definition ex_world :: World where
  "ex_world = \<lparr>symlinks = ex_symlinks, readlink_calls = []\<rparr>"

definition ex_time :: Time where
  "ex_time = \<lparr>unixSec = 1, nsec = 500000000\<rparr>"

definition ex_dir :: FileInfo where
  "ex_dir = \<lparr>Name = ''d'', Size = 4096, Mode = ModeDir OR 493, ModTime = ex_time, Sys = SysOther\<rparr>"

definition ex_file :: FileInfo where
  "ex_file = \<lparr>Name = ''f'', Size = 2, Mode = 420, ModTime = ex_time, Sys = SysOther\<rparr>"

definition ex_info_1ns :: FileInfo where
  "ex_info_1ns = \<lparr>Name = ''f'', Size = 2, Mode = 420,
                   ModTime = \<lparr>unixSec = 0, nsec = 1\<rparr>, Sys = SysOther\<rparr>"

definition ex_setgid_file :: FileInfo where
  "ex_setgid_file = \<lparr>Name = ''f'', Size = 2, Mode = 420 OR ModeSetgid, ModTime = ex_time,
                      Sys = SysOther\<rparr>"

definition ex_symlink_header :: Header where
  "ex_symlink_header = \<lparr>Typeflag = TypeSymlink, Linkname = ''abc'', HeaderSize = 77\<rparr>"

definition ex_tar_symlink :: FileInfo where
  "ex_tar_symlink = \<lparr>Name = ''l'', Size = 77, Mode = ModeSymlink OR 511, ModTime = ex_time,
                      Sys = SysTarHeader ex_symlink_header\<rparr>"

definition ex_empty_header :: Header where
  "ex_empty_header = \<lparr>Typeflag = TypeSymlink, Linkname = [], HeaderSize = 0\<rparr>"

definition ex_tar_empty_link :: FileInfo where
  "ex_tar_empty_link = \<lparr>Name = ''lnk'', Size = 0, Mode = ModeSymlink OR 511, ModTime = ex_time,
                         Sys = SysTarHeader ex_empty_header\<rparr>"

definition ex_live_symlink :: FileInfo where
  "ex_live_symlink = \<lparr>Name = ''lnk'', Size = 10, Mode = ModeSymlink OR 511, ModTime = ex_time,
                       Sys = SysOther\<rparr>"

section \<open>Properties\<close>

lemma KeywordFuncs_hashers:
  "KeywordFuncs D ''md5'' = Some (hasherKeywordFunc ''md5digest'' (md5_New D))"
  "KeywordFuncs D ''md5digest'' = Some (hasherKeywordFunc ''md5digest'' (md5_New D))"
  "KeywordFuncs D ''rmd160'' = Some (hasherKeywordFunc ''ripemd160digest'' (ripemd160_New D))"
  "KeywordFuncs D ''rmd160digest'' = Some (hasherKeywordFunc ''ripemd160digest'' (ripemd160_New D))"
  "KeywordFuncs D ''ripemd160digest'' = Some (hasherKeywordFunc ''ripemd160digest'' (ripemd160_New D))"
  "KeywordFuncs D ''sha1'' = Some (hasherKeywordFunc ''sha1digest'' (sha1_New D))"
  "KeywordFuncs D ''sha1digest'' = Some (hasherKeywordFunc ''sha1digest'' (sha1_New D))"
  "KeywordFuncs D ''sha256'' = Some (hasherKeywordFunc ''sha256digest'' (sha256_New D))"
  "KeywordFuncs D ''sha256digest'' = Some (hasherKeywordFunc ''sha256digest'' (sha256_New D))"
  "KeywordFuncs D ''sha384'' = Some (hasherKeywordFunc ''sha384digest'' (sha512_New384 D))"
  "KeywordFuncs D ''sha384digest'' = Some (hasherKeywordFunc ''sha384digest'' (sha512_New384 D))"
  "KeywordFuncs D ''sha512'' = Some (hasherKeywordFunc ''sha512digest'' (sha512_New D))"
  "KeywordFuncs D ''sha512digest'' = Some (hasherKeywordFunc ''sha512digest'' (sha512_New D))"
  by (simp_all add: KeywordFuncs_def KeywordFuncs_entries_def)

lemma KeywordFuncs_digest:
  assumes "(k, n, alg) \<in> set digest_table"
  shows "KeywordFuncs D k = Some (hasherKeywordFunc n (alg D))"
proof -
  from assms have "(k, n, alg) \<in> set digest_table" .
  then show ?thesis
    unfolding digest_table_def set_simps insert_iff empty_iff prod.inject
    by (elim disjE conjE FalseE) (simp_all only: KeywordFuncs_hashers)
qed

lemma hasher_nonregular:
  "\<not> IsRegular (Mode info) \<Longrightarrow> hasherKeywordFunc n h path info r w = (Inr [], w)"
  by (simp add: hasherKeywordFunc_def)

lemma ex_dir_not_regular: "\<not> IsRegular (Mode ex_dir)"
  by (simp add: ex_dir_def IsRegular_def ModeType_def ModeDir_def ModeSymlink_def
      ModeNamedPipe_def ModeSocket_def ModeDevice_def ModeCharDevice_def ModeIrregular_def)

lemma ex_file_regular: "IsRegular (Mode ex_file)"
  by (simp add: ex_file_def IsRegular_def ModeType_def ModeDir_def ModeSymlink_def
      ModeNamedPipe_def ModeSocket_def ModeDevice_def ModeCharDevice_def ModeIrregular_def)

text \<open>
  Claim C1. For an entry whose mode is not that of a regular file, \<open>cksum\<close> and every
  keyword of the registry built by \<open>hasherKeywordFunc\<close> give the empty token and no
  error, whatever the reader is (the nil reader and a failing reader included), and leave
  the world as it was.
\<close>

theorem nonregular_digest_cksum_empty:
  assumes "\<not> IsRegular (Mode info)"
  shows "cksumKeywordFunc D path info r w = (Inr [], w) \<and>
         (\<forall>(k, n, alg) \<in> set digest_table.
            \<exists>f. KeywordFuncs D k = Some f \<and> f path info r w = (Inr [], w))"
proof
  show "cksumKeywordFunc D path info r w = (Inr [], w)"
    using assms by (simp add: cksumKeywordFunc_def)
  show "\<forall>(k, n, alg) \<in> set digest_table.
            \<exists>f. KeywordFuncs D k = Some f \<and> f path info r w = (Inr [], w)"
    using assms by (auto simp: KeywordFuncs_digest hasher_nonregular)
qed

theorem nonregular_digest_cksum_empty_witness:
  "\<not> IsRegular (Mode ex_dir) \<and>
   cksumKeywordFunc ex_deps ''d'' ex_dir (Stream [1, 2] None) ex_world = (Inr [], ex_world) \<and>
   (''sha256'', ''sha256digest'', sha256_New) \<in> set digest_table \<and>
   (\<exists>f. KeywordFuncs ex_deps ''sha256'' = Some f \<and>
        f ''d'' ex_dir (Stream [1, 2] None) ex_world = (Inr [], ex_world))"
proof -
  have m: "(''sha256'', ''sha256digest'', sha256_New) \<in> set digest_table"
    by (simp add: digest_table_def)
  from nonregular_digest_cksum_empty [OF ex_dir_not_regular, of ex_deps "''d''" "Stream [1, 2] None" ex_world]
  have "cksumKeywordFunc ex_deps ''d'' ex_dir (Stream [1, 2] None) ex_world = (Inr [], ex_world)"
    and b: "\<forall>(k, n, alg) \<in> set digest_table.
      \<exists>f. KeywordFuncs ex_deps k = Some f \<and>
          f ''d'' ex_dir (Stream [1, 2] None) ex_world = (Inr [], ex_world)"
    by blast+
  moreover from b [rule_format, OF m]
  have "\<exists>f. KeywordFuncs ex_deps ''sha256'' = Some f \<and>
        f ''d'' ex_dir (Stream [1, 2] None) ex_world = (Inr [], ex_world)"
    by simp
  ultimately show ?thesis using m ex_dir_not_regular by blast
qed

text \<open>
  Claim C4. A digest keyword and each of its synonyms are registered with functions that
  agree on every path, entry, reader and world: same token, same error, same world.
\<close>

theorem digest_synonyms_equal:
  "\<forall>(k, k') \<in> set digest_synonyms.
     \<exists>f g. KeywordFuncs D k = Some f \<and> KeywordFuncs D k' = Some g \<and>
           (\<forall>path info r w. f path info r w = g path info r w)"
  by (simp add: digest_synonyms_def KeywordFuncs_hashers)

theorem digest_synonyms_equal_witness:
  "(''sha1'', ''sha1digest'') \<in> set digest_synonyms \<and>
   (\<exists>f g. KeywordFuncs ex_deps ''sha1'' = Some f \<and> KeywordFuncs ex_deps ''sha1digest'' = Some g \<and>
          f ''f'' ex_file (Stream [1, 2] None) ex_world = g ''f'' ex_file (Stream [1, 2] None) ex_world)"
proof -
  have m: "(''sha1'', ''sha1digest'') \<in> set digest_synonyms"
    by (simp add: digest_synonyms_def)
  from digest_synonyms_equal [of ex_deps, rule_format, OF m] m show ?thesis by auto
qed

subsection \<open>The numerals that the formatting verbs print\<close>

lemma lt16_cases:
  "d < (16::nat) \<Longrightarrow> d = 0 \<or> d = 1 \<or> d = 2 \<or> d = 3 \<or> d = 4 \<or> d = 5 \<or> d = 6 \<or> d = 7 \<or>
     d = 8 \<or> d = 9 \<or> d = 10 \<or> d = 11 \<or> d = 12 \<or> d = 13 \<or> d = 14 \<or> d = 15"
  by arith

lemma digit_val_char: "d < 16 \<Longrightarrow> digit_val (digit_char d) = d"
  by (drule lt16_cases, elim disjE) (simp_all add: digit_char_def digit_val_def)

lemma digit_char_zero_iff: "d < 16 \<Longrightarrow> digit_char d = CHR ''0'' \<longleftrightarrow> d = 0"
  by (drule lt16_cases, elim disjE) (simp_all add: digit_char_def)

lemma fmt_digits_small: "n < b \<Longrightarrow> fmt_digits b n = [digit_char n]"
  by (simp add: fmt_digits.simps)

lemma fmt_digits_zero: "fmt_digits b 0 = ''0''"
  by (subst fmt_digits.simps) (auto simp: digit_char_def)

lemma fmt_digits_nonempty: "fmt_digits b n \<noteq> []"
  by (subst fmt_digits.simps) simp

text \<open>A positive number is printed without a zero in front.\<close>

lemma hd_fmt_digits:
  "2 \<le> b \<Longrightarrow> b \<le> 16 \<Longrightarrow> 0 < n \<Longrightarrow> hd (fmt_digits b n) \<noteq> CHR ''0''"
proof (induction b n rule: fmt_digits.induct)
  case (1 b n)
  show ?case
  proof (cases "n < b")
    case True
    with 1 show ?thesis
      by (subst fmt_digits.simps) (simp add: digit_char_zero_iff)
  next
    case False
    with 1 have "0 < n div b" by (simp add: div_greater_zero_iff)
    with 1 False have "hd (fmt_digits b (n div b)) \<noteq> CHR ''0''" by simp
    with 1 False show ?thesis
      by (subst fmt_digits.simps) (simp add: fmt_digits_nonempty)
  qed
qed

text \<open>The digits printed in base \<open>b\<close> are those of the number.\<close>

lemma digits_val_fmt:
  "2 \<le> b \<Longrightarrow> b \<le> 16 \<Longrightarrow> digits_val b (fmt_digits b n) = n"
proof (induction b n rule: fmt_digits.induct)
  case (1 b n)
  show ?case
  proof (cases "n < b")
    case True
    with 1 show ?thesis
      by (subst fmt_digits.simps) (simp add: digits_val_def digit_val_char)
  next
    case False
    with 1 have ih: "digits_val b (fmt_digits b (n div b)) = n div b" by simp
    have "n mod b < b" using 1 by simp
    then have "n mod b < 16" using 1 by linarith
    with 1 False ih show ?thesis
      by (subst fmt_digits.simps) (simp add: digits_val_def digit_val_char)
  qed
qed

lemma fmt_sharp_o_eq: "fmt_sharp_o n = (if n = 0 then ''0'' else CHR ''0'' # fmt_digits 8 n)"
  using hd_fmt_digits [of 8 n] by (simp add: fmt_sharp_o_def fmt_digits_zero Let_def)

lemma replicate_8: "replicate 8 x = [x, x, x, x, x, x, x, x]"
  by (simp add: eval_nat_numeral)

lemma fmt_d_1: "fmt_d 1 = ''1''"
  by (simp add: fmt_d_def fmt_digits_small digit_char_def)

lemma fmt_d_2: "fmt_d 2 = ''2''"
  by (simp add: fmt_d_def fmt_digits_small digit_char_def)

lemma fmt_d_3: "fmt_d 3 = ''3''"
  by (simp add: fmt_d_def fmt_digits_small digit_char_def)

lemma fmt_d_wp_0: "fmt_d_wp 9 9 0 = ''000000000''"
  by (simp add: fmt_d_wp_def fmt_digits_zero replicate_8)

lemma fmt_d_wp_half: "fmt_d_wp 9 9 500000000 = ''500000000''"
  by (simp add: fmt_d_wp_def fmt_digits.simps digit_char_def)

lemma fmt_sharp_o_1444: "fmt_sharp_o 1444 = ''02644''"
  by (simp add: fmt_sharp_o_def fmt_digits.simps digit_char_def)

lemma fmt_x_21: "fmt_x [2, 1] = ''0201''"
  by (simp add: fmt_x_def fmt_x_byte_def digit_char_def)

subsection \<open>The time keyword\<close>

lemma UnixNano_1ns: "UnixNano (ModTime ex_info_1ns) = 1"
  by (simp add: ex_info_1ns_def UnixNano_def)

lemma UnixNano_ex_file: "UnixNano (ModTime ex_file) = 1500000000"
  by (simp add: ex_file_def ex_time_def UnixNano_def)

lemma go_div_1ns: "go_div 1 1000000000 = Inr 0"
  by (simp add: go_div_def signed_divide_int_def)

lemma go_div_ex_file: "go_div 1500000000 1000000000 = Inr 1"
  by (simp add: go_div_def signed_divide_int_def)

lemma go_rem_ex_file: "go_rem 1500000000 1 = Inr 0"
  by (simp add: go_rem_def signed_modulo_int_def)

text \<open>The count zero is answered by the literal; no division is computed.\<close>

lemma time_zero:
  "UnixNano (ModTime info) = 0 \<Longrightarrow> timeKeywordFunc path info r w = (Inr ''time=0.000000000'', w)"
  by (simp add: timeKeywordFunc_def)

lemma sdiv_small: "\<bar>k\<bar> < (1000000000::int) \<Longrightarrow> k sdiv 1000000000 = 0"
  by (simp add: signed_divide_int_def)

text \<open>Every other count of less than a second, before or after the epoch, panics.\<close>

lemma time_panics_below_one_second:
  assumes "UnixNano (ModTime info) \<noteq> 0" and "\<bar>sint (UnixNano (ModTime info))\<bar> < 1000000000"
  shows "timeKeywordFunc path info r w = (Inl DivideByZeroPanic, w)"
  using assms by (simp add: timeKeywordFunc_def go_div_def go_rem_def sdiv_small Let_def)

text \<open>
  Claim C2. The claim is that the time keyword never divides by zero. One nanosecond after
  the epoch the count \<open>t\<close> is 1, \<open>t / 1e9\<close> is 0 and \<open>t % (t / 1e9)\<close> panics: the guard
  \<open>t == 0\<close> covers only the count zero, not the counts below one second.
\<close>

theorem time_divides_by_zero_at_1ns:
  "UnixNano (ModTime ex_info_1ns) = 1 \<and>
   timeKeywordFunc ''f'' ex_info_1ns NilReader ex_world = (Inl DivideByZeroPanic, ex_world)"
  by (simp add: UnixNano_1ns timeKeywordFunc_def go_div_1ns go_rem_def)

text \<open>
  Claim C3. The claim is that for a count \<open>t \<noteq> 0\<close> the token is that of the fixed-divisor
  form. At 1.5 seconds the code prints the remainder of \<open>t\<close> by the seconds, which is 0, where
  the fixed-divisor form prints the 500000000 nanoseconds.
\<close>

theorem time_differs_from_fixed_divisor:
  "UnixNano (ModTime ex_file) = 1500000000 \<and>
   timeKeywordFunc ''f'' ex_file NilReader ex_world = (Inr ''time=1.000000000'', ex_world) \<and>
   time_fixed_divisor_spec 1500000000 = ''time=1.500000000''"
  by (simp add: UnixNano_ex_file timeKeywordFunc_def go_div_ex_file go_rem_ex_file fmt_d_1
      fmt_d_wp_0 fmt_d_wp_half time_fixed_divisor_spec_def signed_divide_int_def
      signed_modulo_int_def)

subsection \<open>The mode keyword\<close>

lemma mode_eq_word:
  "modeKeywordFunc path info r w =
     (Inr (''mode='' @ fmt_sharp_o (unat (mode_word_spec (Mode info)))), w)"
  by (simp add: modeKeywordFunc_def mode_word_spec_def Perm_def ModePerm_def Let_def
      word_greater_zero_iff and.commute or.assoc)

lemma perm_le: "unat (m AND (511::uint32)) \<le> 511"
  using word_and_le1 [of m 511] by (simp add: word_le_nat_alt)

lemma perm_or_flag:
  fixes c :: uint32
  assumes "511 AND c = 0" and "unat c < 4096"
  shows "unat ((m AND 511) OR c) = unat (m AND 511) + unat c"
proof -
  have "(m AND 511) AND c = 0"
    by (simp add: and.assoc assms)
  then have "(m AND 511) OR c = (m AND 511) + c"
    by (simp add: disjunctive_add_eq_or)
  moreover have "unat (m AND 511) + unat c < 2 ^ LENGTH(32)"
    using perm_le [of m] assms by simp
  ultimately show ?thesis
    by (simp add: unat_add_lem [THEN iffD1])
qed

text \<open>The three flags add to the permission bits, whatever these are.\<close>

lemma unat_mode_word:
  "unat (mode_word_spec m) =
     unat (m AND 511) + (if m AND ModeSetuid \<noteq> 0 then 2048 else 0)
                      + (if m AND ModeSetgid \<noteq> 0 then 1024 else 0)
                      + (if m AND ModeSticky \<noteq> 0 then 512 else 0)"
  by (simp add: mode_word_spec_def or.assoc perm_or_flag)

lemma mode_setgid_644:
  "Mode info = 420 OR ModeSetgid \<Longrightarrow> modeKeywordFunc path info r w = (Inr ''mode=02644'', w)"
  by (simp add: modeKeywordFunc_def Perm_def ModePerm_def ModeSetgid_def ModeSetuid_def
      ModeSticky_def fmt_sharp_o_1444)

text \<open>
  Claim C5. The mode token is \<open>mode=\<close> and the \<open>%#o\<close> form of the mode word of the
  specification: the low nine permission bits with 04000, 02000 and 01000 or-ed in for
  set-user-id, set-group-id and sticky. Each flag adds its value whatever the permission
  bits are. The \<open>%#o\<close> form starts with a 0; behind it are the octal digits of the word,
  which read back as the word (a word of zero is printed as the single digit 0). An entry
  with permission 0644 (420) and set-group-id gives \<open>mode=02644\<close>.
\<close>

theorem mode_token:
  "modeKeywordFunc path info r w =
     (Inr (''mode='' @ fmt_sharp_o (unat (mode_word_spec (Mode info)))), w) \<and>
   unat (mode_word_spec (Mode info)) =
     unat (Mode info AND 511) + (if Mode info AND ModeSetuid \<noteq> 0 then 2048 else 0)
                              + (if Mode info AND ModeSetgid \<noteq> 0 then 1024 else 0)
                              + (if Mode info AND ModeSticky \<noteq> 0 then 512 else 0) \<and>
   fmt_sharp_o (unat (mode_word_spec (Mode info))) =
     (if unat (mode_word_spec (Mode info)) = 0 then ''0''
      else CHR ''0'' # fmt_digits 8 (unat (mode_word_spec (Mode info)))) \<and>
   digits_val 8 (fmt_digits 8 (unat (mode_word_spec (Mode info)))) =
     unat (mode_word_spec (Mode info)) \<and>
   (Mode info = 420 OR ModeSetgid \<longrightarrow>
      modeKeywordFunc path info r w = (Inr ''mode=02644'', w))"
proof (intro conjI impI)
  show "modeKeywordFunc path info r w =
     (Inr (''mode='' @ fmt_sharp_o (unat (mode_word_spec (Mode info)))), w)"
    by (rule mode_eq_word)
  show "unat (mode_word_spec (Mode info)) =
     unat (Mode info AND 511) + (if Mode info AND ModeSetuid \<noteq> 0 then 2048 else 0)
                              + (if Mode info AND ModeSetgid \<noteq> 0 then 1024 else 0)
                              + (if Mode info AND ModeSticky \<noteq> 0 then 512 else 0)"
    by (rule unat_mode_word)
  show "fmt_sharp_o (unat (mode_word_spec (Mode info))) =
     (if unat (mode_word_spec (Mode info)) = 0 then ''0''
      else CHR ''0'' # fmt_digits 8 (unat (mode_word_spec (Mode info))))"
    by (rule fmt_sharp_o_eq)
  show "digits_val 8 (fmt_digits 8 (unat (mode_word_spec (Mode info)))) =
     unat (mode_word_spec (Mode info))"
    by (simp add: digits_val_fmt)
  show "modeKeywordFunc path info r w = (Inr ''mode=02644'', w)"
    if "Mode info = 420 OR ModeSetgid"
    using that by (rule mode_setgid_644)
qed

theorem mode_token_witness:
  "Mode ex_setgid_file = 420 OR ModeSetgid \<and>
   modeKeywordFunc ''f'' ex_setgid_file NilReader ex_world = (Inr ''mode=02644'', ex_world)"
proof -
  have m: "Mode ex_setgid_file = 420 OR ModeSetgid"
    by (simp add: ex_setgid_file_def)
  from mode_token [of "''f''" ex_setgid_file NilReader ex_world] m show ?thesis
    by blast
qed

subsection \<open>The size keyword\<close>

text \<open>
  Claim C6. For an entry from an archive whose type flag is that of a symlink, the size
  token is the length in bytes of the recorded link name, whatever the size of the entry
  is (the link name \<open>abc\<close> gives \<open>size=3\<close>); for every other entry, from an archive or
  not, it is the size of the entry.
\<close>

theorem size_token:
  "(Sys info = SysTarHeader h \<and> Typeflag h = TypeSymlink \<longrightarrow>
      sizeKeywordFunc path info r w = (Inr (''size='' @ fmt_d (int (length (Linkname h)))), w)) \<and>
   (Sys info = SysTarHeader h \<and> Typeflag h = TypeSymlink \<and> Linkname h = ''abc'' \<longrightarrow>
      sizeKeywordFunc path info r w = (Inr ''size=3'', w)) \<and>
   (Sys info = SysTarHeader h \<and> Typeflag h \<noteq> TypeSymlink \<longrightarrow>
      sizeKeywordFunc path info r w = (Inr (''size='' @ fmt_d (sint (Size info))), w)) \<and>
   ((\<forall>h'. Sys info \<noteq> SysTarHeader h') \<longrightarrow>
      sizeKeywordFunc path info r w = (Inr (''size='' @ fmt_d (sint (Size info))), w))"
  by (auto simp: sizeKeywordFunc_def fmt_d_3 split: sys_value.splits)

theorem size_token_witness:
  "Sys ex_tar_symlink = SysTarHeader ex_symlink_header \<and>
   Typeflag ex_symlink_header = TypeSymlink \<and>
   Linkname ex_symlink_header = ''abc'' \<and>
   Size ex_tar_symlink = 77 \<and>
   sizeKeywordFunc ''l'' ex_tar_symlink NilReader ex_world = (Inr ''size=3'', ex_world) \<and>
   Sys ex_file = SysOther \<and>
   sizeKeywordFunc ''f'' ex_file NilReader ex_world = (Inr ''size=2'', ex_world)"
proof -
  have a: "Sys ex_tar_symlink = SysTarHeader ex_symlink_header \<and>
           Typeflag ex_symlink_header = TypeSymlink \<and> Linkname ex_symlink_header = ''abc''"
    by (simp add: ex_tar_symlink_def ex_symlink_header_def)
  have b: "\<forall>h'. Sys ex_file \<noteq> SysTarHeader h'" and c: "Sys ex_file = SysOther"
    by (simp_all add: ex_file_def)
  have d: "Size ex_tar_symlink = 77" and e: "fmt_d (sint (Size ex_file)) = ''2''"
    by (simp_all add: ex_tar_symlink_def ex_file_def fmt_d_2)
  from size_token [of ex_tar_symlink ex_symlink_header "''l''" NilReader ex_world] a
  have "sizeKeywordFunc ''l'' ex_tar_symlink NilReader ex_world = (Inr ''size=3'', ex_world)"
    by blast
  moreover from size_token [of ex_file ex_symlink_header "''f''" NilReader ex_world] b e
  have "sizeKeywordFunc ''f'' ex_file NilReader ex_world = (Inr ''size=2'', ex_world)"
    by simp
  ultimately show ?thesis using a c d by simp
qed

subsection \<open>The type keyword\<close>

lemma type_first: "typeKeywordFunc path info r w = (Inr (first_class (Mode info)), w)"
  by (simp add: typeKeywordFunc_def first_class_def type_classes_def)

lemma first_class_range:
  "first_class m \<in> {''type=dir'', ''type=file'', ''type=socket'', ''type=link'', ''type=fifo'',
                     ''type=char'', ''type=device'', []}"
  by (simp add: first_class_def type_classes_def)

lemma well_formed_first_class:
  assumes "well_formed m"
  shows "(\<forall>(p, t) \<in> set type_classes. first_class m = t \<longleftrightarrow> p m) \<and>
         (first_class m = [] \<longleftrightarrow> (\<forall>(p, t) \<in> set type_classes. \<not> p m))"
  using assms
  by (auto simp: well_formed_def first_class_def type_classes_def split: if_splits)

text \<open>
  Claim C7. The type token is always one of the seven tokens or the empty token, without
  error, and it is the token of the first classification that holds, in the order
  directory, regular file, socket, symlink, named pipe, character device, block device.
  On a mode on which at most one classification holds, the token is that of a
  classification exactly when the classification holds, and it is empty exactly when none
  holds.
\<close>

theorem type_token:
  "typeKeywordFunc path info r w = (Inr (first_class (Mode info)), w) \<and>
   first_class (Mode info) \<in>
     {''type=dir'', ''type=file'', ''type=socket'', ''type=link'', ''type=fifo'',
      ''type=char'', ''type=device'', []} \<and>
   (well_formed (Mode info) \<longrightarrow>
      (\<forall>(p, t) \<in> set type_classes. first_class (Mode info) = t \<longleftrightarrow> p (Mode info)) \<and>
      (first_class (Mode info) = [] \<longleftrightarrow> (\<forall>(p, t) \<in> set type_classes. \<not> p (Mode info))))"
proof (intro conjI impI)
  show "typeKeywordFunc path info r w = (Inr (first_class (Mode info)), w)"
    by (rule type_first)
  show "first_class (Mode info) \<in>
     {''type=dir'', ''type=file'', ''type=socket'', ''type=link'', ''type=fifo'',
      ''type=char'', ''type=device'', []}"
    by (rule first_class_range)
  show "\<forall>(p, t) \<in> set type_classes. first_class (Mode info) = t \<longleftrightarrow> p (Mode info)"
    if "well_formed (Mode info)"
    using well_formed_first_class [OF that] by (rule conjunct1)
  show "first_class (Mode info) = [] \<longleftrightarrow> (\<forall>(p, t) \<in> set type_classes. \<not> p (Mode info))"
    if "well_formed (Mode info)"
    using well_formed_first_class [OF that] by (rule conjunct2)
qed

lemma ex_dir_IsDir: "IsDir (Mode ex_dir)"
  by (simp add: ex_dir_def IsDir_def ModeDir_def)

lemma ex_dir_well_formed: "well_formed (Mode ex_dir)"
  by (simp add: well_formed_def type_classes_def ex_dir_def IsDir_def IsRegular_def
      ModeType_def ModeDir_def ModeSymlink_def ModeNamedPipe_def ModeSocket_def ModeDevice_def
      ModeCharDevice_def ModeIrregular_def)

theorem type_token_witness:
  "well_formed (Mode ex_dir) \<and> (IsDir, ''type=dir'') \<in> set type_classes \<and>
   IsDir (Mode ex_dir) \<and>
   typeKeywordFunc ''d'' ex_dir NilReader ex_world = (Inr ''type=dir'', ex_world)"
proof -
  have m: "(IsDir, ''type=dir'') \<in> set type_classes"
    by (simp add: type_classes_def)
  note tt = type_token [of "''d''" ex_dir NilReader ex_world]
  from tt have run: "typeKeywordFunc ''d'' ex_dir NilReader ex_world =
               (Inr (first_class (Mode ex_dir)), ex_world)"
    by (rule conjunct1)
  from tt [THEN conjunct2, THEN conjunct2, rule_format, OF ex_dir_well_formed]
  have all: "\<forall>(p, t) \<in> set type_classes. first_class (Mode ex_dir) = t \<longleftrightarrow> p (Mode ex_dir)"
    by (rule conjunct1)
  from all [rule_format, OF m] ex_dir_IsDir have "first_class (Mode ex_dir) = ''type=dir''"
    by simp
  with run m ex_dir_IsDir ex_dir_well_formed show ?thesis by simp
qed

subsection \<open>The link keyword\<close>

text \<open>
  Claim C8. For an entry from an archive with a recorded link name that is not empty, the
  link token is that name, without error, and \<open>os.Readlink\<close> is not called: the world and
  its log of calls are as before.
\<close>

theorem link_from_archive:
  assumes "Sys info = SysTarHeader h" and "Linkname h \<noteq> []"
  shows "linkKeywordFunc path info r w = (Inr (''link='' @ Linkname h), w) \<and>
         readlink_calls (snd (linkKeywordFunc path info r w)) = readlink_calls w"
  using assms by (simp add: linkKeywordFunc_def)

theorem link_from_archive_witness:
  "Sys ex_tar_symlink = SysTarHeader ex_symlink_header \<and> Linkname ex_symlink_header \<noteq> [] \<and>
   linkKeywordFunc ''l'' ex_tar_symlink NilReader ex_world = (Inr ''link=abc'', ex_world) \<and>
   readlink_calls (snd (linkKeywordFunc ''l'' ex_tar_symlink NilReader ex_world)) = []"
proof -
  have a: "Sys ex_tar_symlink = SysTarHeader ex_symlink_header"
    and b: "Linkname ex_symlink_header \<noteq> []"
    and c: "Linkname ex_symlink_header = ''abc''"
    and d: "readlink_calls ex_world = []"
    by (simp_all add: ex_tar_symlink_def ex_symlink_header_def ex_world_def)
  from link_from_archive [OF a b, of "''l''" NilReader ex_world] a b c d show ?thesis
    by simp
qed

text \<open>
  Claim C9, as claimed, fails: an entry from an archive whose recorded link name is empty
  and whose mode is that of a symlink gets the empty token, and \<open>os.Readlink\<close> is not
  called, although the path is a symlink to \<open>target.txt\<close> in the file system.
\<close>

theorem link_archive_empty_name_no_readlink:
  "Sys ex_tar_empty_link = SysTarHeader ex_empty_header \<and> Linkname ex_empty_header = [] \<and>
   Mode ex_tar_empty_link AND ModeSymlink \<noteq> 0 \<and>
   symlinks ex_world ''lnk'' = Inr ''target.txt'' \<and>
   linkKeywordFunc ''lnk'' ex_tar_empty_link NilReader ex_world = (Inr [], ex_world)"
  by (simp add: ex_tar_empty_link_def ex_empty_header_def ex_world_def ex_symlinks_def
      linkKeywordFunc_def ModeSymlink_def)

text \<open>
  Claim C9, amended. For an entry that is not from an archive and whose mode is that of a
  symlink, the link keyword calls \<open>os.Readlink\<close> on the path once; it gives
  \<open>link=\<close> and the target when the call succeeds, and the error of the call when it
  fails. For an entry from an archive with an empty recorded link name it gives the empty
  token and does not call \<open>os.Readlink\<close>.
\<close>

theorem link_from_file_system:
  "((\<forall>h. Sys info \<noteq> SysTarHeader h) \<and> Mode info AND ModeSymlink \<noteq> 0 \<and>
      symlinks w path = Inr target \<longrightarrow>
        linkKeywordFunc path info r w =
          (Inr (''link='' @ target), w\<lparr>readlink_calls := readlink_calls w @ [path]\<rparr>)) \<and>
   ((\<forall>h. Sys info \<noteq> SysTarHeader h) \<and> Mode info AND ModeSymlink \<noteq> 0 \<and>
      symlinks w path = Inl err \<longrightarrow>
        linkKeywordFunc path info r w =
          (Inl err, w\<lparr>readlink_calls := readlink_calls w @ [path]\<rparr>)) \<and>
   (Sys info = SysTarHeader h \<and> Linkname h = [] \<longrightarrow>
        linkKeywordFunc path info r w = (Inr [], w))"
  by (auto simp: linkKeywordFunc_def os_Readlink_def split: sys_value.splits)

theorem link_from_file_system_witness:
  "Sys ex_live_symlink = SysOther \<and> Mode ex_live_symlink AND ModeSymlink \<noteq> 0 \<and>
   symlinks ex_world ''lnk'' = Inr ''target.txt'' \<and>
   linkKeywordFunc ''lnk'' ex_live_symlink NilReader ex_world =
     (Inr ''link=target.txt'', ex_world\<lparr>readlink_calls := [''lnk'']\<rparr>) \<and>
   symlinks ex_world ''gone'' = Inl (Err ''readlink: invalid argument'') \<and>
   linkKeywordFunc ''gone'' ex_live_symlink NilReader ex_world =
     (Inl (Err ''readlink: invalid argument''), ex_world\<lparr>readlink_calls := [''gone'']\<rparr>) \<and>
   Sys ex_tar_empty_link = SysTarHeader ex_empty_header \<and> Linkname ex_empty_header = [] \<and>
   linkKeywordFunc ''lnk'' ex_tar_empty_link NilReader ex_world = (Inr [], ex_world)"
proof -
  have a: "\<forall>h. Sys ex_live_symlink \<noteq> SysTarHeader h" and a': "Sys ex_live_symlink = SysOther"
    and b: "Mode ex_live_symlink AND ModeSymlink \<noteq> 0"
    by (simp_all add: ex_live_symlink_def ModeSymlink_def)
  have c: "symlinks ex_world ''lnk'' = Inr ''target.txt''"
    and d: "symlinks ex_world ''gone'' = Inl (Err ''readlink: invalid argument'')"
    and e: "readlink_calls ex_world = []"
    by (simp_all add: ex_world_def ex_symlinks_def)
  have f: "Sys ex_tar_empty_link = SysTarHeader ex_empty_header"
    and g: "Linkname ex_empty_header = []"
    by (simp_all add: ex_tar_empty_link_def ex_empty_header_def)
  from link_from_file_system
         [of ex_live_symlink ex_world "''lnk''" "''target.txt''" NilReader] a b c e
  have 1: "linkKeywordFunc ''lnk'' ex_live_symlink NilReader ex_world =
     (Inr ''link=target.txt'', ex_world\<lparr>readlink_calls := [''lnk'']\<rparr>)"
    by simp
  from link_from_file_system
         [of ex_live_symlink ex_world "''gone''" _ NilReader "Err ''readlink: invalid argument''"]
       a b d e
  have 2: "linkKeywordFunc ''gone'' ex_live_symlink NilReader ex_world =
     (Inl (Err ''readlink: invalid argument''), ex_world\<lparr>readlink_calls := [''gone'']\<rparr>)"
    by simp
  from link_from_file_system [of ex_tar_empty_link _ "''lnk''" _ NilReader _ ex_empty_header] f g
  have 3: "linkKeywordFunc ''lnk'' ex_tar_empty_link NilReader ex_world = (Inr [], ex_world)"
    by simp
  from 1 2 3 a' b c d f g show ?thesis by simp
qed

subsection \<open>The names in the digest tokens\<close>

text \<open>
  Claim C10. On a regular file whose content is read to the end, every digest keyword of
  the registry gives the token made of the name given to \<open>hasherKeywordFunc\<close> (the
  \<open>...digest\<close> name of the table), \<open>=\<close> and the digest in hexadecimal; where the
  keyword asked for is not that name (\<open>md5\<close>, \<open>rmd160\<close>, \<open>rmd160digest\<close>,
  \<open>sha1\<close>, \<open>sha256\<close>, \<open>sha384\<close>, \<open>sha512\<close>), the token does not begin with the
  keyword and \<open>=\<close>.
\<close>

theorem digest_token_name:
  assumes "IsRegular (Mode info)" and "io_Copy r = Inr bs"
  shows "\<forall>(k, n, alg) \<in> set digest_table.
           \<exists>f tok. KeywordFuncs D k = Some f \<and> f path info r w = (Inr tok, w) \<and>
                  tok = n @ ''='' @ fmt_x (alg D bs) \<and> prefix (n @ ''='') tok \<and>
                  (k \<noteq> n \<longrightarrow> \<not> prefix (k @ ''='') tok)"
proof -
  have run: "hasherKeywordFunc n h path info r w = (Inr (n @ ''='' @ fmt_x (h bs)), w)" for n h
    using assms by (simp add: hasherKeywordFunc_def)
  have "\<exists>f tok. KeywordFuncs D k = Some f \<and> f path info r w = (Inr tok, w) \<and>
                  tok = n @ ''='' @ fmt_x (alg D bs) \<and> prefix (n @ ''='') tok \<and>
                  (k \<noteq> n \<longrightarrow> \<not> prefix (k @ ''='') tok)"
    if m: "(k, n, alg) \<in> set digest_table" for k n alg
  proof -
    have np: "k \<noteq> n \<longrightarrow> \<not> prefix (k @ ''='') (n @ ''='' @ rest)" for rest
      using m unfolding digest_table_def set_simps insert_iff empty_iff prod.inject
      by (elim disjE conjE FalseE) simp_all
    show ?thesis
      using KeywordFuncs_digest [OF m, of D] run np by simp
  qed
  then show ?thesis by auto
qed

theorem digest_token_name_witness:
  "IsRegular (Mode ex_file) \<and> io_Copy (Stream [1, 2] None) = Inr [1, 2] \<and>
   (''md5'', ''md5digest'', md5_New) \<in> set digest_table \<and>
   (\<exists>f. KeywordFuncs ex_deps ''md5'' = Some f \<and>
        f ''f'' ex_file (Stream [1, 2] None) ex_world = (Inr ''md5digest=0201'', ex_world)) \<and>
   prefix ''md5digest='' ''md5digest=0201'' \<and> \<not> prefix ''md5='' ''md5digest=0201''"
proof -
  have c: "io_Copy (Stream [1, 2] None) = Inr [1, 2]"
    by simp
  have m: "(''md5'', ''md5digest'', md5_New) \<in> set digest_table"
    by (simp add: digest_table_def)
  have h: "fmt_x (md5_New ex_deps [1, 2]) = ''0201''"
    by (simp add: ex_deps_def ex_hash_def fmt_x_21)
  from digest_token_name [OF ex_file_regular c, of ex_deps "''f''" ex_world, rule_format, OF m]
  have "\<exists>f. KeywordFuncs ex_deps ''md5'' = Some f \<and>
        f ''f'' ex_file (Stream [1, 2] None) ex_world = (Inr ''md5digest=0201'', ex_world)"
    by (simp add: h)
  with ex_file_regular c m show ?thesis by simp
qed

end
